theory Spec2Isabelle
  imports Complex_Main "HOL-Library.Sublist"
begin

section \<open>Equipment resolution: \<open>parseEquipmentForLoader\<close> (BungieAuth.js)\<close>

text \<open>
  The profile response is JSON. Hashes are JSON numbers holding unsigned 32-bit values, so
  they are natural numbers here; a number is falsy exactly when it is 0. Character ids and
  item instance ids are strings. A property that may be missing (read through \<open>?.\<close> or
  defaulted with \<open>||\<close> in the source) is an \<open>option\<close>, \<open>None\<close> standing for
  \<open>undefined\<close>.
\<close>

record item =
  itemHash :: nat
  itemInstanceId :: "string option"
  bucketHash :: nat

record socket =
  plugHash :: "nat option"
  isEnabled :: bool
  isVisible :: bool

record dye =
  dyeHash :: nat
  channelHash :: nat

text \<open>An entry of \<open>peerView.equipment\<close>.\<close>

record peer_item =
  pe_itemHash :: nat
  pe_dyes :: "dye list option"

record peer_view =
  equipment :: "peer_item list option"

record render_entry =
  peerView :: "peer_view option"

record character =
  classType :: nat
  genderType :: nat
  raceType :: nat
  light :: nat
  emblemPath :: string

text \<open>
  \<open>profileData\<close>. Each field is the \<open>data\<close> of one component and \<open>None\<close> when that
  component has no \<open>data\<close>. The source reads \<open>profileData.characters.data\<close> and
  \<open>profileData.characterEquipment.data\<close> without a guard and indexes the result, which
  throws when it is \<open>undefined\<close>; \<open>itemComponents?.sockets?.data\<close> and
  \<open>characterRenderData?.data\<close> are guarded and default to an empty object. An entry of
  \<open>characterEquipment.data\<close> may lack \<open>items\<close>, an entry of the socket table may lack
  \<open>sockets\<close>.
\<close>

record profile =
  characters :: "(string \<rightharpoonup> character) option"
  characterEquipment :: "(string \<rightharpoonup> item list option) option"
  itemSockets_data :: "(string \<rightharpoonup> socket list option) option"
  characterRenderData :: "(string \<rightharpoonup> render_entry) option"

record armor_detail =
  bucket :: string
  ad_itemHash :: nat
  instanceId :: "string option"

text \<open>
  The \<open>character\<close> object of the result: five properties copied from what
  \<open>characters[characterId]\<close> gave, each \<open>undefined\<close> when that value has no such property.
\<close>

record result_character =
  res_classType :: "nat option"
  res_genderType :: "nat option"
  res_raceType :: "nat option"
  res_light :: "nat option"
  res_emblemPath :: "string option"

record parse_result =
  res_character :: result_character
  itemHashes :: "nat list"
  shaderHashes :: "nat list"
  armorDetails :: "armor_detail list"
  itemDyes :: "dye list list"
  peerViewEquipment :: "peer_item list"

text \<open>
  The function has no \<open>throw\<close> and no error class of its own. The only exception it can
  raise is the \<open>TypeError\<close> of JavaScript for reading a property of \<open>undefined\<close>: at
  \<open>characters[characterId]\<close> or \<open>equipment[characterId]\<close> when the table is missing, and at
  \<open>character.classType\<close> when the character is.
\<close>

datatype js_error = TypeError

text \<open>
  \<open>obj[key]\<close> on an object made by \<open>JSON.parse\<close>: an own property, or else a member that
  every object inherits from \<open>Object.prototype\<close> (a function, or the prototype itself for
  \<open>__proto__\<close>), or else \<open>undefined\<close>. An inherited member is not \<open>undefined\<close>, and has
  none of the properties that the source reads from a table entry.
\<close>

datatype 'a property = Own 'a | Inherited | Missing

definition Object_prototype_keys :: "string list" where
  "Object_prototype_keys =
     [''constructor'', ''hasOwnProperty'', ''isPrototypeOf'', ''propertyIsEnumerable'',
      ''toLocaleString'', ''toString'', ''valueOf'', ''__proto__'',
      ''__defineGetter__'', ''__defineSetter__'', ''__lookupGetter__'', ''__lookupSetter__'']"

definition js_get :: "(string \<rightharpoonup> 'a) \<Rightarrow> string \<Rightarrow> 'a property" where
  "js_get obj key =
     (case obj key of
        Some v \<Rightarrow> Own v
      | None \<Rightarrow> if key \<in> set Object_prototype_keys then Inherited else Missing)"

text \<open>
  \<open>ARMOR_BUCKETS\<close>: an object literal with string keys; \<open>for (... in ARMOR_BUCKETS)\<close>
  visits the keys in the order they are written.
\<close>

definition ARMOR_BUCKETS :: "(string \<times> nat) list" where
  "ARMOR_BUCKETS =
     [(''HELMET'', 3448274439),
      (''GAUNTLETS'', 3551918588),
      (''CHEST'', 14239492),
      (''LEGS'', 20886954),
      (''CLASS_ITEM'', 1585787867)]"

text \<open>\<open>sockets[i]\<close>: \<open>undefined\<close> beyond the end of the array.\<close>

definition socket_at :: "socket list \<Rightarrow> nat \<Rightarrow> socket option" where
  "socket_at sockets i = (if i < length sockets then Some (sockets ! i) else None)"

text \<open>
  \<open>sockets[i]?.plugHash && sockets[i]?.isVisible\<close>: the socket exists, its plug hash is
  present and not 0, and it is visible.
\<close>

definition shader_socket :: "socket list \<Rightarrow> nat \<Rightarrow> bool" where
  "shader_socket sockets i =
     (case socket_at sockets i of
        None \<Rightarrow> False
      | Some s \<Rightarrow> (case plugHash s of None \<Rightarrow> False | Some h \<Rightarrow> h \<noteq> 0 \<and> isVisible s))"

text \<open>\<open>sockets[i].plugHash\<close>, read once the test above has passed.\<close>

definition plug_at :: "socket list \<Rightarrow> nat \<Rightarrow> nat" where
  "plug_at sockets i =
     (case socket_at sockets i of
        None \<Rightarrow> 0
      | Some s \<Rightarrow> (case plugHash s of None \<Rightarrow> 0 | Some h \<Rightarrow> h))"

text \<open>
  \<open>for (let i = 3; i <= 5; i++) { if (...) { shaderHash = sockets[i].plugHash; break; } }\<close>
  with \<open>shaderHash\<close> starting at 0: \<open>scan_shader sockets 3\<close>.
\<close>

function scan_shader :: "socket list \<Rightarrow> nat \<Rightarrow> nat" where
  "scan_shader sockets i =
     (if i \<le> 5
      then (if shader_socket sockets i then plug_at sockets i
            else scan_shader sockets (i + 1))
      else 0)"
  by pat_completeness auto
termination
  by (relation "measure (\<lambda>(sockets, i). 6 - i)") auto

declare scan_shader.simps [simp del]

text \<open>
  \<open>itemSockets[itemInstanceId]?.sockets\<close>, where \<open>itemSockets\<close> is
  \<open>profileData.itemComponents?.sockets?.data || {}\<close>. An item without an instance id
  looks up the key \<open>undefined\<close>. An inherited member has no \<open>sockets\<close>, like a missing
  entry.
\<close>

definition sockets_of :: "profile \<Rightarrow> item \<Rightarrow> socket list option" where
  "sockets_of p it =
     (case itemSockets_data p of
        None \<Rightarrow> None
      | Some tbl \<Rightarrow>
          (case tbl (case itemInstanceId it of None \<Rightarrow> ''undefined'' | Some iid \<Rightarrow> iid) of
             None \<Rightarrow> None
           | Some e \<Rightarrow> e))"

text \<open>The shader hash of one item: 0 unless the item has sockets and the scan finds one.\<close>

definition shader_of :: "profile \<Rightarrow> item \<Rightarrow> nat" where
  "shader_of p it =
     (case sockets_of p it of None \<Rightarrow> 0 | Some sockets \<Rightarrow> scan_shader sockets 3)"

text \<open>
  \<open>peerViewEquipment\<close>: \<open>(renderData[characterId]?.peerView || {}).equipment || []\<close>
  with \<open>renderData = profileData.characterRenderData?.data || {}\<close>.
\<close>

definition peer_view_equipment :: "profile \<Rightarrow> string \<Rightarrow> peer_item list" where
  "peer_view_equipment p cid =
     (case characterRenderData p of
        None \<Rightarrow> []
      | Some rd \<Rightarrow>
          (case rd cid of
             None \<Rightarrow> []
           | Some e \<Rightarrow>
               (case peerView e of
                  None \<Rightarrow> []
                | Some pv \<Rightarrow> (case equipment pv of None \<Rightarrow> [] | Some eq \<Rightarrow> eq))))"

text \<open>
  \<open>peerViewEquipment.find(pe => pe.itemHash === itemHash)?.dyes || []\<close>.
\<close>

definition dyes_for :: "peer_item list \<Rightarrow> nat \<Rightarrow> dye list" where
  "dyes_for pve h =
     (case find (\<lambda>pe. pe_itemHash pe = h) pve of
        None \<Rightarrow> []
      | Some pe \<Rightarrow> (case pe_dyes pe of None \<Rightarrow> [] | Some ds \<Rightarrow> ds))"

text \<open>
  \<open>equipment[characterId]?.items || []\<close>, for \<open>equipment\<close> (here \<open>equip\<close>) the
  equipment table. An
  inherited member has no \<open>items\<close>, like a missing entry. Without a table the source
  throws at this point (see \<open>parseEquipmentForLoader\<close>), and there are no items.
\<close>

definition items_of :: "profile \<Rightarrow> string \<Rightarrow> item list" where
  "items_of p cid =
     (case characterEquipment p of
        None \<Rightarrow> []
      | Some equip \<Rightarrow>
          (case equip cid of
             None \<Rightarrow> []
           | Some e \<Rightarrow> (case e of None \<Rightarrow> [] | Some its \<Rightarrow> its)))"

text \<open>
  The loop over \<open>ARMOR_BUCKETS\<close>. The state is the three arrays the source pushes to:
  \<open>armorItems\<close>, \<open>shaderHashes\<close>, \<open>itemDyes\<close>. \<open>items.find\<close> returns the first item of
  the bucket, an object, hence truthy. The loop over the sockets 0 and 1 (ornaments) has an
  empty body in the source and leaves \<open>itemHash\<close> as it is.
\<close>

fun armor_loop ::
  "profile \<Rightarrow> item list \<Rightarrow> peer_item list \<Rightarrow> (string \<times> nat) list \<Rightarrow>
   armor_detail list \<times> nat list \<times> dye list list \<Rightarrow>
   armor_detail list \<times> nat list \<times> dye list list" where
  "armor_loop p items pve [] acc = acc"
| "armor_loop p items pve ((bucketName, bHash) # rest) (armorItems, shaders, dyes) =
     (case find (\<lambda>i. bucketHash i = bHash) items of
        None \<Rightarrow> armor_loop p items pve rest (armorItems, shaders, dyes)
      | Some it \<Rightarrow>
          armor_loop p items pve rest
            (armorItems @ [\<lparr>bucket = bucketName, ad_itemHash = itemHash it,
                            instanceId = itemInstanceId it\<rparr>],
             shaders @ [shader_of p it],
             dyes @ [dyes_for pve (itemHash it)]))"

text \<open>
  The \<open>character\<close> object built in the \<open>return\<close> statement from
  \<open>character = characters[characterId]\<close>: reading \<open>character.classType\<close> throws when
  \<open>character\<close> is \<open>undefined\<close>, and gives \<open>undefined\<close> five times when it is an inherited
  member.
\<close>

fun read_character :: "character property \<Rightarrow> js_error + result_character" where
  "read_character Missing = Inl TypeError"
| "read_character Inherited =
     Inr \<lparr>res_classType = None, res_genderType = None, res_raceType = None,
          res_light = None, res_emblemPath = None\<rparr>"
| "read_character (Own c) =
     Inr \<lparr>res_classType = Some (classType c), res_genderType = Some (genderType c),
          res_raceType = Some (raceType c), res_light = Some (light c),
          res_emblemPath = Some (emblemPath c)\<rparr>"

text \<open>
  The function. Indexing a missing character table or a missing equipment table throws
  before the loop; a missing character throws after it, in the \<open>return\<close> statement.
\<close>

definition parseEquipmentForLoader :: "profile \<Rightarrow> string \<Rightarrow> js_error + parse_result" where
  "parseEquipmentForLoader p cid =
     (case characters p of
        None \<Rightarrow> Inl TypeError
      | Some chars \<Rightarrow>
          (case characterEquipment p of
             None \<Rightarrow> Inl TypeError
           | Some equip \<Rightarrow>
               (let items = items_of p cid;
                    pve = peer_view_equipment p cid;
                    (armorItems, shaders, dyes) =
                      armor_loop p items pve ARMOR_BUCKETS ([], [], [])
                in case read_character (js_get chars cid) of
                     Inl err \<Rightarrow> Inl err
                   | Inr c \<Rightarrow>
                       Inr \<lparr>res_character = c,
                            itemHashes = map ad_itemHash armorItems,
                            shaderHashes = shaders,
                            armorDetails = armorItems,
                            itemDyes = dyes,
                            peerViewEquipment = pve\<rparr>)))"

text \<open>
  The item the loop sees for a bucket name: \<open>items.find(i => i.bucketHash === bucketHash)\<close>
  with \<open>bucketHash = ARMOR_BUCKETS[bucketName]\<close>.
\<close>

definition bucket_item :: "profile \<Rightarrow> string \<Rightarrow> string \<Rightarrow> item option" where
  "bucket_item p cid bucketName =
     (case map_of ARMOR_BUCKETS bucketName of
        None \<Rightarrow> None
      | Some bHash \<Rightarrow> find (\<lambda>i. bucketHash i = bHash) (items_of p cid))"

text \<open>
  The shader rule in the specification's words, to be compared with \<open>scan_shader\<close>: among
  the socket indices 3, 4, 5 in ascending order, the first socket that is visible and has a
  non-zero plug hash gives the shader hash; without such a socket the shader hash is 0.
\<close>

definition first_visible_plug :: "socket list \<Rightarrow> nat" where
  "first_visible_plug sockets =
     (case find (\<lambda>i. i < length sockets \<and> isVisible (sockets ! i) \<and>
                      (case plugHash (sockets ! i) of None \<Rightarrow> False | Some h \<Rightarrow> h \<noteq> 0))
             [3, 4, 5] of
        None \<Rightarrow> 0
      | Some i \<Rightarrow> (case plugHash (sockets ! i) of None \<Rightarrow> 0 | Some h \<Rightarrow> h))"

text \<open>The items the loop selects, with their bucket names (used in the proofs).\<close>

fun picked :: "item list \<Rightarrow> (string \<times> nat) list \<Rightarrow> (string \<times> item) list" where
  "picked items [] = []"
| "picked items ((bucketName, bHash) # rest) =
     (case find (\<lambda>i. bucketHash i = bHash) items of
        None \<Rightarrow> picked items rest
      | Some it \<Rightarrow> (bucketName, it) # picked items rest)"

definition detail_of :: "string \<times> item \<Rightarrow> armor_detail" where
  "detail_of ni =
     \<lparr>bucket = fst ni, ad_itemHash = itemHash (snd ni), instanceId = itemInstanceId (snd ni)\<rparr>"

section \<open>Shader dyes: \<open>loadShaderDyes\<close> (viewer entry module)\<close>

text \<open>
  A gear asset as the manifest returns it. The entries of the dye arrays are not inspected
  by \<open>loadShaderDyes\<close> (only logged), so their type is a parameter. \<open>locked_dyes\<close> is
  part of the asset and is never read by \<open>loadShaderDyes\<close>.
\<close>

record 'm gear_asset =
  custom_dyes :: "'m list option"
  default_dyes :: "'m list option"
  locked_dyes :: "'m list option"

record 'm asset_data =
  gearAsset :: "'m gear_asset option"

text \<open>
  What \<open>manifest.getAsset(shaderHash, onLoad, undefined, onError)\<close> does: it calls
  \<open>onLoad(data)\<close> (with \<open>data\<close> possibly \<open>null\<close>), or it calls \<open>onError(err)\<close>, or it
  throws. The manifest itself (\<open>THREE.TGXManifest\<close>) is outside this code.
\<close>

datatype 'm manifest_reply =
    Loaded "'m asset_data option"
  | Failed
  | Thrown

record 'm manifest_env =
  tgx_available :: bool
  getAsset :: "nat \<Rightarrow> 'm manifest_reply"

text \<open>
  The value the promise resolves to; \<open>None\<close> is \<open>null\<close>. The promise is never rejected:
  the error callback and the \<open>catch\<close> both call \<open>resolve(null)\<close>.
\<close>

definition non_empty :: "'a list option \<Rightarrow> bool" where
  "non_empty xs = (case xs of None \<Rightarrow> False | Some l \<Rightarrow> length l > 0)"

definition loadShaderDyes :: "'m manifest_env \<Rightarrow> nat \<Rightarrow> 'm list option" where
  "loadShaderDyes env shaderHash =
     (if shaderHash = 0 then None
      else if \<not> tgx_available env then None
      else (case getAsset env shaderHash of
              Thrown \<Rightarrow> None
            | Failed \<Rightarrow> None
            | Loaded data \<Rightarrow>
                (case data of
                   None \<Rightarrow> None
                 | Some d \<Rightarrow>
                     (case gearAsset d of
                        None \<Rightarrow> None
                      | Some ga \<Rightarrow>
                          if non_empty (custom_dyes ga) then custom_dyes ga
                          else if non_empty (default_dyes ga) then default_dyes ga
                          else None))))"

section \<open>Model assembly: \<open>loadModel\<close> (viewer entry module)\<close>

text \<open>
  A bone as the loader delivers it. \<open>parent\<close> is an integer index, or missing. The name and
  the local transform are copied to the new bone in a first pass that reads nothing else;
  they play no part in the hierarchy and are left out.
\<close>

record bone_data =
  parent :: "int option"

text \<open>
  A geometry handed to the load callback. \<open>has_skin\<close> stands for
  \<open>geometry.skinIndices && geometry.skinIndices.length > 0\<close>; the skin arrays are taken
  to be parallel, as the copy loop of the source does.
\<close>

record geometry =
  bones :: "bone_data list option"
  has_skin :: bool

text \<open>
  The second \<open>forEach\<close>: the calls \<open>threeBones[boneData.parent].add(threeBones[i])\<close> it
  makes, in order, as pairs (parent index, child index). \<open>n\<close> is \<open>threeBones.length\<close>.
\<close>

fun attach_bones :: "nat \<Rightarrow> nat \<Rightarrow> bone_data list \<Rightarrow> (nat \<times> nat) list" where
  "attach_bones n i [] = []"
| "attach_bones n i (boneData # rest) =
     (case parent boneData of
        None \<Rightarrow> attach_bones n (i + 1) rest
      | Some q \<Rightarrow>
          if q \<ge> 0 \<and> q < int n then (nat q, i) # attach_bones n (i + 1) rest
          else attach_bones n (i + 1) rest)"

text \<open>
  The root search: \<open>rootBone\<close> starts as \<open>threeBones[0]\<close> and is overwritten by every bone
  whose parent is negative or undefined; the \<open>forEach\<close> runs to the end.
\<close>

definition root_like :: "bone_data \<Rightarrow> bool" where
  "root_like boneData = (case parent boneData of None \<Rightarrow> True | Some q \<Rightarrow> q < 0)"

fun root_scan :: "nat \<Rightarrow> nat \<Rightarrow> bone_data list \<Rightarrow> nat" where
  "root_scan rootBone i [] = rootBone"
| "root_scan rootBone i (boneData # rest) =
     root_scan (if root_like boneData then i else rootBone) (i + 1) rest"

record skeleton_info =
  attachments :: "(nat \<times> nat) list"
  rootBone :: nat
  skinned :: bool

text \<open>The mesh, named \<open>item_<itemHash>\<close>.\<close>

datatype mesh = Mesh nat | SkinnedMesh nat skeleton_info

definition make_mesh :: "nat \<Rightarrow> geometry \<Rightarrow> mesh" where
  "make_mesh h g =
     (if non_empty (bones g)
      then (case bones g of
              None \<Rightarrow> Mesh h
            | Some bs \<Rightarrow>
                SkinnedMesh h
                  \<lparr>attachments = attach_bones (length bs) 0 bs,
                   rootBone = root_scan 0 0 bs,
                   skinned = has_skin g\<rparr>)
      else Mesh h)"

text \<open>
  The options \<open>init\<close> passes to \<open>loadModel\<close>, and what \<open>loader.load\<close> does with the request:
  it calls one of its callbacks once, the load callback with a geometry or the error
  callback with an error. The geometry it hands over may be missing (\<open>null\<close> or
  \<open>undefined\<close>). The loader itself (\<open>TGXLoader\<close>) is outside this code.
\<close>

record 'm load_options =
  opt_shaderHash :: "nat option"
  opt_itemDyes :: "dye list option"
  opt_shaderDyes :: "'m list option"

datatype loader_reply = OnLoad "geometry option" | OnError string

text \<open>
  What becomes of a promise: it is resolved with a value, rejected with an error, or never
  settled, and then an \<open>await\<close> on it never returns.
\<close>

datatype ('e, 'a) promise = Resolved 'a | Rejected 'e | Pending

text \<open>
  \<open>loadModel\<close> returns a promise. \<open>reject\<close> is called in the error callback only. The load
  callback is an \<open>async\<close> function that calls \<open>resolve(mesh)\<close> as its last statement: when
  its body throws before that, as it does at its second statement, which reads
  \<open>geometry.vertices\<close>, when there is no geometry, the exception is kept in the promise of
  the callback, which nobody reads, and the promise of \<open>loadModel\<close> is never settled.
  (The copy of the skin data throws in the same way when there are fewer skin weights than
  skin indices; the type of \<open>geometry\<close> leaves that input out.)
\<close>

definition loadModel ::
  "(nat \<Rightarrow> 'm load_options \<Rightarrow> loader_reply) \<Rightarrow> nat \<Rightarrow> 'm load_options \<Rightarrow>
   (string, mesh) promise" where
  "loadModel loader h opts =
     (case loader h opts of
        OnError err \<Rightarrow> Rejected err
      | OnLoad None \<Rightarrow> Pending
      | OnLoad (Some g) \<Rightarrow> Resolved (make_mesh h g))"

section \<open>Placement: \<open>addGroupToScene\<close> (viewer entry module)\<close>

text \<open>
  JavaScript numbers with their three non-finite values. The finite ones are taken as real
  numbers: rounding and the sign of zero are not modelled. Only the operations that
  \<open>addGroupToScene\<close> applies are defined.
\<close>

datatype jsnum = Num real | PosInf | NegInf | NaN

fun js_isFinite :: "jsnum \<Rightarrow> bool" where
  "js_isFinite (Num x) = True"
| "js_isFinite _ = False"

text \<open>\<open>a < b\<close> and \<open>a <= b\<close>: false as soon as one side is \<open>NaN\<close>.\<close>

fun js_lt :: "jsnum \<Rightarrow> jsnum \<Rightarrow> bool" where
  "js_lt NaN _ = False"
| "js_lt _ NaN = False"
| "js_lt (Num x) (Num y) = (x < y)"
| "js_lt _ NegInf = False"
| "js_lt PosInf _ = False"
| "js_lt NegInf _ = True"
| "js_lt _ PosInf = True"

fun js_le :: "jsnum \<Rightarrow> jsnum \<Rightarrow> bool" where
  "js_le NaN _ = False"
| "js_le _ NaN = False"
| "js_le (Num x) (Num y) = (x \<le> y)"
| "js_le NegInf _ = True"
| "js_le _ PosInf = True"
| "js_le _ NegInf = False"
| "js_le PosInf _ = False"

definition js_gt :: "jsnum \<Rightarrow> jsnum \<Rightarrow> bool" where
  "js_gt a b = js_lt b a"

text \<open>\<open>Math.max\<close>: \<open>NaN\<close> if an argument is \<open>NaN\<close>, else the greatest argument.\<close>

fun js_max2 :: "jsnum \<Rightarrow> jsnum \<Rightarrow> jsnum" where
  "js_max2 NaN _ = NaN"
| "js_max2 _ NaN = NaN"
| "js_max2 PosInf _ = PosInf"
| "js_max2 _ PosInf = PosInf"
| "js_max2 NegInf b = b"
| "js_max2 a NegInf = a"
| "js_max2 (Num x) (Num y) = Num (max x y)"

definition js_max3 :: "jsnum \<Rightarrow> jsnum \<Rightarrow> jsnum \<Rightarrow> jsnum" where
  "js_max3 a b c = js_max2 (js_max2 a b) c"

definition inf_of_sign :: "bool \<Rightarrow> jsnum" where
  "inf_of_sign positive = (if positive then PosInf else NegInf)"

fun js_mul :: "jsnum \<Rightarrow> jsnum \<Rightarrow> jsnum" where
  "js_mul NaN _ = NaN"
| "js_mul _ NaN = NaN"
| "js_mul (Num x) (Num y) = Num (x * y)"
| "js_mul (Num x) PosInf = (if x = 0 then NaN else inf_of_sign (x > 0))"
| "js_mul (Num x) NegInf = (if x = 0 then NaN else inf_of_sign (x < 0))"
| "js_mul PosInf (Num y) = (if y = 0 then NaN else inf_of_sign (y > 0))"
| "js_mul NegInf (Num y) = (if y = 0 then NaN else inf_of_sign (y < 0))"
| "js_mul PosInf PosInf = PosInf"
| "js_mul NegInf NegInf = PosInf"
| "js_mul PosInf NegInf = NegInf"
| "js_mul NegInf PosInf = NegInf"

fun js_div :: "jsnum \<Rightarrow> jsnum \<Rightarrow> jsnum" where
  "js_div NaN _ = NaN"
| "js_div _ NaN = NaN"
| "js_div (Num x) (Num y) =
     (if y \<noteq> 0 then Num (x / y) else if x = 0 then NaN else inf_of_sign (x > 0))"
| "js_div (Num x) _ = Num 0"
| "js_div PosInf (Num y) = inf_of_sign (y \<ge> 0)"
| "js_div NegInf (Num y) = inf_of_sign (y < 0)"
| "js_div _ _ = NaN"

fun js_neg :: "jsnum \<Rightarrow> jsnum" where
  "js_neg (Num x) = Num (- x)"
| "js_neg PosInf = NegInf"
| "js_neg NegInf = PosInf"
| "js_neg NaN = NaN"

type_synonym vec3 = "jsnum \<times> jsnum \<times> jsnum"

text \<open>\<open>new THREE.PerspectiveCamera(45, ...)\<close>: the field of view, in degrees.\<close>

definition camera_fov :: real where
  "camera_fov = 45"

text \<open>
  What \<open>addGroupToScene\<close> computes from the size and the centre of the group's bounding
  box, and what it writes: \<open>group.scale\<close>, \<open>group.position\<close> and the z coordinate of the
  camera. The values of the locals \<open>maxDim\<close>, \<open>center\<close>, \<open>scaleFactor\<close> and
  \<open>cameraDistance\<close> are kept in the result.
\<close>

record placement =
  pl_maxDim :: jsnum
  pl_center :: vec3
  pl_scaleFactor :: jsnum
  group_scale :: vec3
  group_position :: vec3
  pl_cameraDistance :: jsnum
  camera_z :: jsnum

definition degenerate_box :: "jsnum \<Rightarrow> bool" where
  "degenerate_box maxDim = (\<not> js_isFinite maxDim \<or> js_le maxDim (Num 0))"

definition place_group :: "vec3 \<Rightarrow> vec3 \<Rightarrow> placement" where
  "place_group box_size box_center =
     (let (sx, sy, sz) = box_size;
          maxDim0 = js_max3 sx sy sz;
          maxDim = (if degenerate_box maxDim0 then Num 2 else maxDim0);
          (cx, cy, cz) = (if degenerate_box maxDim0 then (Num 0, Num 1, Num 0) else box_center);
          scaleFactor =
            (if js_lt maxDim (Num (1 / 2)) \<and> js_gt maxDim (Num 0)
             then js_div (Num 1) maxDim else Num 1);
          scaledCenter = (js_mul cx scaleFactor, js_mul cy scaleFactor, js_mul cz scaleFactor);
          fov = camera_fov * (pi / 180);
          cameraDistance =
            js_mul (js_div (js_mul maxDim scaleFactor) (js_mul (Num 2) (Num (tan (fov / 2)))))
                   (Num (3 / 2))
      in \<lparr>pl_maxDim = maxDim,
          pl_center = (cx, cy, cz),
          pl_scaleFactor = scaleFactor,
          group_scale = (scaleFactor, scaleFactor, scaleFactor),
          group_position =
            (js_neg (fst scaledCenter), js_neg (fst (snd scaledCenter)),
             js_neg (snd (snd scaledCenter))),
          pl_cameraDistance = cameraDistance,
          camera_z = js_max2 cameraDistance (Num 2)\<rparr>)"

section \<open>Loading a character: the selection callback of \<open>init\<close> (viewer entry module)\<close>

text \<open>
  The status line. The source writes Spanish sentences; each constructor stands for one of
  them:
  \<^item> \<open>No_piece_loaded\<close>: "Error: No se pudo cargar ninguna pieza de armadura."
  \<^item> \<open>No_armor_found\<close>: "No se encontro armadura equipada" (accent left out)
  \<^item> \<open>Cleared\<close>: the empty string that \<open>addGroupToScene\<close> writes when it is done.
  The progress messages written while the items load are always overwritten by one of
  these three before the callback ends, and are not tracked.
\<close>

datatype status_msg = No_piece_loaded | No_armor_found | Cleared

text \<open>
  What the user is left with: the status line, and the children of the group given to
  \<open>addGroupToScene\<close> (\<open>None\<close> when it was not called, so that nothing is shown).
\<close>

record view_state =
  status :: status_msg
  scene_group :: "mesh list option"

text \<open>\<open>xs[i]\<close> on an array: \<open>undefined\<close> out of range.\<close>

definition at_index :: "'a list \<Rightarrow> nat \<Rightarrow> 'a option" where
  "at_index xs i = (if i < length xs then Some (xs ! i) else None)"

text \<open>
  The body of the \<open>try\<close> block for index \<open>i\<close>: the shader dyes are fetched when the
  shader hash is truthy (\<open>loadShaderDyes\<close> always resolves), then \<open>loadModel\<close> is awaited.
  \<open>Rejected\<close> is the rejection that the \<open>catch\<close> of the loop receives; with \<open>Pending\<close>
  the \<open>await\<close> never returns.
\<close>

definition load_item ::
  "'m manifest_env \<Rightarrow> (nat \<Rightarrow> 'm load_options \<Rightarrow> loader_reply) \<Rightarrow> parse_result \<Rightarrow> nat \<Rightarrow>
   (string, mesh) promise" where
  "load_item env loader eq i =
     (let h = itemHashes eq ! i;
          shaderHash = at_index (shaderHashes eq) i;
          dyes = at_index (itemDyes eq) i;
          shaderDyes =
            (case shaderHash of
               None \<Rightarrow> None
             | Some sh \<Rightarrow> if sh \<noteq> 0 then loadShaderDyes env sh else None)
      in loadModel loader h
           \<lparr>opt_shaderHash = shaderHash, opt_itemDyes = dyes, opt_shaderDyes = shaderDyes\<rparr>)"

text \<open>
  \<open>for (let i = 0; i < equipment.itemHashes.length; i++) { try { ... } catch (err) { } }\<close>.
  The state is the children of \<open>characterGroup\<close> and \<open>loadedCount\<close>. The result is
  \<open>None\<close> when the loop never ends, because an \<open>await\<close> in it never returns.
\<close>

function load_items ::
  "'m manifest_env \<Rightarrow> (nat \<Rightarrow> 'm load_options \<Rightarrow> loader_reply) \<Rightarrow> parse_result \<Rightarrow> nat \<Rightarrow>
   mesh list \<times> nat \<Rightarrow> (mesh list \<times> nat) option" where
  "load_items env loader eq i (children, loadedCount) =
     (if i < length (itemHashes eq)
      then (case load_item env loader eq i of
              Resolved m \<Rightarrow>
                load_items env loader eq (i + 1) (children @ [m], loadedCount + 1)
            | Rejected err \<Rightarrow> load_items env loader eq (i + 1) (children, loadedCount)
            | Pending \<Rightarrow> None)
      else Some (children, loadedCount))"
  by pat_completeness auto
termination
  by (relation "measure (\<lambda>(env, loader, eq, i, st). length (itemHashes eq) - i)") auto

declare load_items.simps [simp del]

text \<open>
  The callback, from the parsed equipment on. \<open>None\<close>: the callback never gets past the
  loop, so that neither \<open>addGroupToScene\<close> is called nor a final status written.
\<close>

definition load_character ::
  "'m manifest_env \<Rightarrow> (nat \<Rightarrow> 'm load_options \<Rightarrow> loader_reply) \<Rightarrow> parse_result \<Rightarrow>
   view_state option" where
  "load_character env loader eq =
     (if length (itemHashes eq) > 0
      then (case load_items env loader eq 0 ([], 0) of
              None \<Rightarrow> None
            | Some (children, loadedCount) \<Rightarrow>
                Some (if length children > 0
                      then \<lparr>status = Cleared, scene_group = Some children\<rparr>
                      else \<lparr>status = No_piece_loaded, scene_group = None\<rparr>))
      else Some \<lparr>status = No_armor_found, scene_group = None\<rparr>)"

text \<open>The meshes of the items that load, in order (used to state what the loop keeps).\<close>

definition loaded_meshes ::
  "'m manifest_env \<Rightarrow> (nat \<Rightarrow> 'm load_options \<Rightarrow> loader_reply) \<Rightarrow> parse_result \<Rightarrow>
   nat list \<Rightarrow> mesh list" where
  "loaded_meshes env loader eq idxs =
     List.map_filter
       (\<lambda>i. case load_item env loader eq i of
               Resolved m \<Rightarrow> Some m | Rejected err \<Rightarrow> None | Pending \<Rightarrow> None) idxs"

section \<open>Concrete inputs\<close>

definition ex_character :: character where
  "ex_character =
     \<lparr>classType = 1, genderType = 0, raceType = 2, light = 1810, emblemPath = ''/img/e.jpg''\<rparr>"

definition ex_legs :: item where
  "ex_legs = \<lparr>itemHash = 11, itemInstanceId = Some ''i1'', bucketHash = 20886954\<rparr>"

definition ex_helmet :: item where
  "ex_helmet = \<lparr>itemHash = 22, itemInstanceId = Some ''i2'', bucketHash = 3448274439\<rparr>"

definition ex_sockets :: "socket list" where
  "ex_sockets =
     [\<lparr>plugHash = Some 1, isEnabled = True, isVisible = True\<rparr>,
      \<lparr>plugHash = Some 2, isEnabled = True, isVisible = True\<rparr>,
      \<lparr>plugHash = None, isEnabled = False, isVisible = False\<rparr>,
      \<lparr>plugHash = Some 0, isEnabled = True, isVisible = True\<rparr>,
      \<lparr>plugHash = Some 77, isEnabled = True, isVisible = False\<rparr>,
      \<lparr>plugHash = Some 99, isEnabled = True, isVisible = True\<rparr>]"

definition ex_profile :: profile where
  "ex_profile =
     \<lparr>characters = Some [''c1'' \<mapsto> ex_character],
      characterEquipment = Some [''c1'' \<mapsto> Some [ex_legs, ex_helmet]],
      itemSockets_data = Some [''i2'' \<mapsto> Some ex_sockets],
      characterRenderData =
        Some [''c1'' \<mapsto>
          \<lparr>peerView = Some \<lparr>equipment =
             Some [\<lparr>pe_itemHash = 11, pe_dyes = Some [\<lparr>dyeHash = 5, channelHash = 6\<rparr>]\<rparr>]\<rparr>\<rparr>]\<rparr>"

definition ex_result :: parse_result where
  "ex_result =
     \<lparr>res_character =
        \<lparr>res_classType = Some 1, res_genderType = Some 0, res_raceType = Some 2,
         res_light = Some 1810, res_emblemPath = Some ''/img/e.jpg''\<rparr>,
      itemHashes = [22, 11],
      shaderHashes = [99, 0],
      armorDetails =
        [\<lparr>bucket = ''HELMET'', ad_itemHash = 22, instanceId = Some ''i2''\<rparr>,
         \<lparr>bucket = ''LEGS'', ad_itemHash = 11, instanceId = Some ''i1''\<rparr>],
      itemDyes = [[], [\<lparr>dyeHash = 5, channelHash = 6\<rparr>]],
      peerViewEquipment = [\<lparr>pe_itemHash = 11, pe_dyes = Some [\<lparr>dyeHash = 5, channelHash = 6\<rparr>]\<rparr>]\<rparr>"

text \<open>A character without an equipment entry; a profile without the equipment table.\<close>

definition ex_bare :: profile where
  "ex_bare =
     \<lparr>characters = Some [''c1'' \<mapsto> ex_character],
      characterEquipment = Some Map.empty,
      itemSockets_data = None,
      characterRenderData = None\<rparr>"

definition ex_no_equipment_data :: profile where
  "ex_no_equipment_data =
     \<lparr>characters = Some [''c1'' \<mapsto> ex_character],
      characterEquipment = None,
      itemSockets_data = None,
      characterRenderData = None\<rparr>"

definition ex_empty_result :: parse_result where
  "ex_empty_result =
     \<lparr>res_character =
        \<lparr>res_classType = None, res_genderType = None, res_raceType = None,
         res_light = None, res_emblemPath = None\<rparr>,
      itemHashes = [], shaderHashes = [], armorDetails = [], itemDyes = [],
      peerViewEquipment = []\<rparr>"

definition ex_env_custom :: "nat manifest_env" where
  "ex_env_custom =
     \<lparr>tgx_available = True,
      getAsset = (\<lambda>h. Loaded (Some \<lparr>gearAsset =
        Some \<lparr>custom_dyes = Some [1, 2], default_dyes = Some [3], locked_dyes = Some [4]\<rparr>\<rparr>))\<rparr>"

definition ex_env_default :: "nat manifest_env" where
  "ex_env_default =
     \<lparr>tgx_available = True,
      getAsset = (\<lambda>h. Loaded (Some \<lparr>gearAsset =
        Some \<lparr>custom_dyes = Some [], default_dyes = Some [1, 2], locked_dyes = None\<rparr>\<rparr>))\<rparr>"

definition ex_env_failed :: "nat manifest_env" where
  "ex_env_failed = \<lparr>tgx_available = True, getAsset = (\<lambda>h. Failed)\<rparr>"

definition ex_env_missing :: "nat manifest_env" where
  "ex_env_missing = \<lparr>tgx_available = True, getAsset = (\<lambda>h. Loaded None)\<rparr>"

definition ex_bones_forward :: "bone_data list" where
  "ex_bones_forward = [\<lparr>parent = Some (- 1)\<rparr>, \<lparr>parent = Some 5\<rparr>]"

definition ex_bones_two_roots :: "bone_data list" where
  "ex_bones_two_roots = [\<lparr>parent = Some (- 1)\<rparr>, \<lparr>parent = Some 0\<rparr>, \<lparr>parent = Some (- 1)\<rparr>]"

definition ex_bones_later_parent :: "bone_data list" where
  "ex_bones_later_parent = [\<lparr>parent = Some 1\<rparr>, \<lparr>parent = Some (- 1)\<rparr>]"

definition ex_options :: "nat load_options" where
  "ex_options = \<lparr>opt_shaderHash = None, opt_itemDyes = None, opt_shaderDyes = None\<rparr>"

definition ex_plain_geometry :: geometry where
  "ex_plain_geometry = \<lparr>bones = None, has_skin = False\<rparr>"

text \<open>
  A loader that fails on item 22 and delivers item 11; one that fails on everything; one
  that calls the load callback for item 22 without a geometry and delivers item 11.
\<close>

definition ex_loader :: "nat \<Rightarrow> nat load_options \<Rightarrow> loader_reply" where
  "ex_loader h opts = (if h = 22 then OnError ''404'' else OnLoad (Some ex_plain_geometry))"

definition ex_loader_no_geometry :: "nat \<Rightarrow> nat load_options \<Rightarrow> loader_reply" where
  "ex_loader_no_geometry h opts =
     (if h = 22 then OnLoad None else OnLoad (Some ex_plain_geometry))"

definition ex_loader_down :: "nat \<Rightarrow> nat load_options \<Rightarrow> loader_reply" where
  "ex_loader_down h opts = OnError ''offline''"

text \<open>Loaders that deliver a skeleton.\<close>

definition ex_loader_forward :: "nat \<Rightarrow> nat load_options \<Rightarrow> loader_reply" where
  "ex_loader_forward h opts =
     OnLoad (Some \<lparr>bones = Some ex_bones_forward, has_skin = False\<rparr>)"

definition ex_loader_later_parent :: "nat \<Rightarrow> nat load_options \<Rightarrow> loader_reply" where
  "ex_loader_later_parent h opts =
     OnLoad (Some \<lparr>bones = Some ex_bones_later_parent, has_skin = False\<rparr>)"

section \<open>Properties of equipment resolution\<close>

subsection \<open>Facts about the bucket loop\<close>

lemma armor_loop_picked:
  "armor_loop p items pve bs (a, s, d) =
     (a @ map detail_of (picked items bs),
      s @ map (\<lambda>ni. shader_of p (snd ni)) (picked items bs),
      d @ map (\<lambda>ni. dyes_for pve (itemHash (snd ni))) (picked items bs))"
  by (induction bs arbitrary: a s d) (auto simp: detail_of_def split: option.splits)

lemma picked_names:
  "map fst (picked items bs) = map fst (filter (\<lambda>(name, h). h \<in> bucketHash ` set items) bs)"
proof (induction bs)
  case Nil
  show ?case by simp
next
  case (Cons b bs)
  obtain n h where b: "b = (n, h)" by (cases b)
  show ?case
  proof (cases "find (\<lambda>i. bucketHash i = h) items")
    case None
    then have "h \<notin> bucketHash ` set items" by (auto simp: find_None_iff)
    with None Cons b show ?thesis by simp
  next
    case (Some it)
    then have "h \<in> bucketHash ` set items" by (auto simp: find_Some_iff)
    with Some Cons b show ?thesis by simp
  qed
qed

lemma picked_find:
  "(n, it) \<in> set (picked items bs) \<Longrightarrow> distinct (map fst bs) \<Longrightarrow>
     \<exists>h. map_of bs n = Some h \<and> find (\<lambda>i. bucketHash i = h) items = Some it"
proof (induction bs)
  case Nil
  then show ?case by simp
next
  case (Cons b bs)
  obtain m h where b: "b = (m, h)" by (cases b)
  have sub: "fst ` set (picked items bs) \<subseteq> fst ` set bs"
  proof -
    have "set (map fst (picked items bs)) \<subseteq> set (map fst bs)"
      unfolding picked_names by auto
    then show ?thesis by simp
  qed
  show ?case
  proof (cases "n = m")
    case True
    have "(n, it) \<notin> set (picked items bs)"
    proof
      assume "(n, it) \<in> set (picked items bs)"
      then have "n \<in> fst ` set (picked items bs)" by force
      with sub have "n \<in> fst ` set bs" by blast
      with Cons.prems(2) b True show False by simp
    qed
    with Cons.prems(1) b True show ?thesis
      by (auto split: option.splits)
  next
    case False
    with Cons.prems b have "(n, it) \<in> set (picked items bs)" "distinct (map fst bs)"
      by (auto split: option.splits)
    with Cons.IH False b show ?thesis by simp
  qed
qed

lemma parse_Inr:
  "parseEquipmentForLoader p cid = Inr r \<Longrightarrow>
     armorDetails r = map detail_of (picked (items_of p cid) ARMOR_BUCKETS) \<and>
     itemHashes r = map (\<lambda>ni. itemHash (snd ni)) (picked (items_of p cid) ARMOR_BUCKETS) \<and>
     shaderHashes r = map (\<lambda>ni. shader_of p (snd ni)) (picked (items_of p cid) ARMOR_BUCKETS) \<and>
     itemDyes r = map (\<lambda>ni. dyes_for (peer_view_equipment p cid) (itemHash (snd ni)))
                    (picked (items_of p cid) ARMOR_BUCKETS)"
  by (auto simp: parseEquipmentForLoader_def armor_loop_picked Let_def detail_of_def
           split: option.splits sum.splits)

lemma parse_returns:
  "characters p = Some chars \<Longrightarrow> characterEquipment p = Some equip \<Longrightarrow>
   read_character (js_get chars cid) = Inr c \<Longrightarrow>
     \<exists>r. parseEquipmentForLoader p cid = Inr r \<and> res_character r = c"
  by (simp add: parseEquipmentForLoader_def Let_def split: prod.splits)

lemma bucket_names:
  "parseEquipmentForLoader p cid = Inr r \<Longrightarrow>
     map bucket (armorDetails r) =
       map fst (filter (\<lambda>(name, h). h \<in> bucketHash ` set (items_of p cid)) ARMOR_BUCKETS)"
  by (simp add: parse_Inr picked_names [symmetric] detail_of_def comp_def)

lemma subseq_map_filter: "subseq (map f (filter P xs)) (map f xs)"
  by (induction xs) auto

lemma distinct_map_filter_keep: "distinct (map f xs) \<Longrightarrow> distinct (map f (filter P xs))"
  by (induction xs) auto

lemma ARMOR_BUCKETS_names:
  "map fst ARMOR_BUCKETS = [''HELMET'', ''GAUNTLETS'', ''CHEST'', ''LEGS'', ''CLASS_ITEM'']"
  by (simp add: ARMOR_BUCKETS_def)

lemma parse_index:
  assumes r: "parseEquipmentForLoader p cid = Inr r" and i: "i < length (armorDetails r)"
  shows "\<exists>it. bucket_item p cid (bucket (armorDetails r ! i)) = Some it \<and>
              ad_itemHash (armorDetails r ! i) = itemHash it \<and>
              instanceId (armorDetails r ! i) = itemInstanceId it \<and>
              itemHashes r ! i = itemHash it \<and>
              shaderHashes r ! i = shader_of p it \<and>
              itemDyes r ! i = dyes_for (peer_view_equipment p cid) (itemHash it)"
proof -
  let ?ps = "picked (items_of p cid) ARMOR_BUCKETS"
  note R = parse_Inr [OF r]
  from i R have i': "i < length ?ps" by simp
  obtain n it where ni: "?ps ! i = (n, it)" by (cases "?ps ! i")
  with i' have "(n, it) \<in> set ?ps" by (metis nth_mem)
  moreover have "distinct (map fst ARMOR_BUCKETS)" by (simp add: ARMOR_BUCKETS_def)
  ultimately obtain h where h: "map_of ARMOR_BUCKETS n = Some h"
    "find (\<lambda>x. bucketHash x = h) (items_of p cid) = Some it"
    using picked_find by blast
  have "bucket (armorDetails r ! i) = n"
    using R i' ni by (simp add: detail_of_def)
  then have "bucket_item p cid (bucket (armorDetails r ! i)) = Some it"
    using h by (simp add: bucket_item_def)
  then show ?thesis
    using R i' ni by (simp add: detail_of_def)
qed

lemma scan_shader_6: "scan_shader sockets 6 = 0"
  by (subst scan_shader.simps) simp

lemma scan_shader_5:
  "scan_shader sockets 5 = (if shader_socket sockets 5 then plug_at sockets 5 else 0)"
  by (subst scan_shader.simps) (simp add: scan_shader_6)

lemma scan_shader_4:
  "scan_shader sockets 4 =
     (if shader_socket sockets 4 then plug_at sockets 4
      else if shader_socket sockets 5 then plug_at sockets 5 else 0)"
  by (subst scan_shader.simps) (simp add: scan_shader_5)

lemma scan_shader_3:
  "scan_shader sockets 3 =
     (if shader_socket sockets 3 then plug_at sockets 3
      else if shader_socket sockets 4 then plug_at sockets 4
      else if shader_socket sockets 5 then plug_at sockets 5 else 0)"
  by (subst scan_shader.simps) (simp add: scan_shader_4)

lemma shader_socket_iff:
  "shader_socket sockets i \<longleftrightarrow>
     i < length sockets \<and> isVisible (sockets ! i) \<and>
     (case plugHash (sockets ! i) of None \<Rightarrow> False | Some h \<Rightarrow> h \<noteq> 0)"
  by (auto simp: shader_socket_def socket_at_def split: option.splits)

lemma plug_at_eq:
  "shader_socket sockets i \<Longrightarrow>
     plug_at sockets i = (case plugHash (sockets ! i) of None \<Rightarrow> 0 | Some h \<Rightarrow> h)"
  by (auto simp: shader_socket_def plug_at_def socket_at_def split: option.splits if_splits)

lemma scan_shader_spec: "scan_shader sockets 3 = first_visible_plug sockets"
  unfolding scan_shader_3 first_visible_plug_def
  by (simp add: shader_socket_iff [symmetric] plug_at_eq)

lemma ex_items: "items_of ex_profile ''c1'' = [ex_legs, ex_helmet]"
  by (simp add: items_of_def ex_profile_def)

lemma ex_sockets_helmet: "sockets_of ex_profile ex_helmet = Some ex_sockets"
  by (simp add: sockets_of_def ex_profile_def ex_helmet_def)

lemma ex_sockets_legs: "sockets_of ex_profile ex_legs = None"
  by (simp add: sockets_of_def ex_profile_def ex_legs_def)

lemma ex_scan: "scan_shader ex_sockets 3 = 99"
  by (simp add: scan_shader_3 shader_socket_def plug_at_def socket_at_def ex_sockets_def)

lemma ex_pve:
  "peer_view_equipment ex_profile ''c1'' =
     [\<lparr>pe_itemHash = 11, pe_dyes = Some [\<lparr>dyeHash = 5, channelHash = 6\<rparr>]\<rparr>]"
  by (simp add: peer_view_equipment_def ex_profile_def)

lemma ex_parse: "parseEquipmentForLoader ex_profile ''c1'' = Inr ex_result"
proof -
  have c: "characters ex_profile = Some [''c1'' \<mapsto> ex_character]"
    by (simp add: ex_profile_def)
  have e: "characterEquipment ex_profile = Some [''c1'' \<mapsto> Some [ex_legs, ex_helmet]]"
    by (simp add: ex_profile_def)
  have r: "read_character (js_get [''c1'' \<mapsto> ex_character] ''c1'') =
             Inr \<lparr>res_classType = Some 1, res_genderType = Some 0, res_raceType = Some 2,
                  res_light = Some 1810, res_emblemPath = Some ''/img/e.jpg''\<rparr>"
    by (simp add: js_get_def ex_character_def)
  have l: "armor_loop ex_profile [ex_legs, ex_helmet]
             (peer_view_equipment ex_profile ''c1'') ARMOR_BUCKETS ([], [], []) =
           (armorDetails ex_result, shaderHashes ex_result, itemDyes ex_result)"
    by (simp add: ex_pve ARMOR_BUCKETS_def shader_of_def ex_sockets_helmet ex_sockets_legs
          ex_scan dyes_for_def ex_result_def)
       (simp add: ex_legs_def ex_helmet_def)
  show ?thesis
    by (simp add: parseEquipmentForLoader_def c e r ex_items l)
       (simp add: ex_result_def ex_pve)
qed

lemma picked_empty:
  "\<forall>it \<in> set items. bucketHash it \<notin> snd ` set bs \<Longrightarrow> picked items bs = []"
proof (induction bs)
  case Nil
  show ?case by simp
next
  case (Cons b bs)
  obtain n h where b: "b = (n, h)" by (cases b)
  from Cons.prems b have "find (\<lambda>i. bucketHash i = h) items = None"
    by (auto simp: find_None_iff)
  moreover from Cons.prems have "\<forall>it \<in> set items. bucketHash it \<notin> snd ` set bs"
    by auto
  ultimately show ?case using Cons.IH b by simp
qed

subsection \<open>Slot order\<close>

text \<open>
  Claim C1. Whenever \<open>parseEquipmentForLoader\<close> returns, the bucket names of
  \<open>armorDetails\<close> are exactly the names of \<open>ARMOR_BUCKETS\<close>, in the order written there,
  whose bucket hash occurs among the character's items. Hence no bucket occurs twice, the
  names form a subsequence of HELMET, GAUNTLETS, CHEST, LEGS, CLASS_ITEM, a bucket without
  an item gives no entry, and two inputs with the same items in any order give the same
  sequence of buckets.
\<close>

theorem C1_slot_order:
  "parseEquipmentForLoader p cid = Inr r \<Longrightarrow>
     map bucket (armorDetails r) =
       map fst (filter (\<lambda>(name, h). h \<in> bucketHash ` set (items_of p cid)) ARMOR_BUCKETS)
     \<and> distinct (map bucket (armorDetails r))
     \<and> subseq (map bucket (armorDetails r))
          [''HELMET'', ''GAUNTLETS'', ''CHEST'', ''LEGS'', ''CLASS_ITEM'']
     \<and> (\<forall>p' cid' r'. set (items_of p' cid') = set (items_of p cid) \<and>
            parseEquipmentForLoader p' cid' = Inr r' \<longrightarrow>
            map bucket (armorDetails r') = map bucket (armorDetails r))"
proof -
  assume r: "parseEquipmentForLoader p cid = Inr r"
  let ?f = "filter (\<lambda>(name, h). h \<in> bucketHash ` set (items_of p cid)) ARMOR_BUCKETS"
  have eq: "map bucket (armorDetails r) = map fst ?f"
    using r by (rule bucket_names)
  have d: "distinct (map fst ARMOR_BUCKETS)"
    by (simp add: ARMOR_BUCKETS_def)
  have 1: "distinct (map fst ?f)"
    using d by (rule distinct_map_filter_keep)
  have "subseq (map fst ?f) (map fst ARMOR_BUCKETS)"
    by (rule subseq_map_filter)
  then have 2: "subseq (map fst ?f) [''HELMET'', ''GAUNTLETS'', ''CHEST'', ''LEGS'', ''CLASS_ITEM'']"
    by (simp only: ARMOR_BUCKETS_names)
  have 3: "map bucket (armorDetails r') = map bucket (armorDetails r)"
    if "set (items_of p' cid') = set (items_of p cid)"
      and "parseEquipmentForLoader p' cid' = Inr r'" for p' cid' r'
    using that eq bucket_names [of p' cid' r'] by simp
  from 1 2 3 show ?thesis
    unfolding eq by blast
qed

text \<open>The legs come first in the input and second in the result.\<close>

theorem C1_slot_order_witness:
  "parseEquipmentForLoader ex_profile ''c1'' = Inr ex_result \<and>
   items_of ex_profile ''c1'' = [ex_legs, ex_helmet] \<and>
   map bucket (armorDetails ex_result) = [''HELMET'', ''LEGS''] \<and>
   distinct (map bucket (armorDetails ex_result)) \<and>
   subseq (map bucket (armorDetails ex_result))
     [''HELMET'', ''GAUNTLETS'', ''CHEST'', ''LEGS'', ''CLASS_ITEM'']"
proof -
  note t = C1_slot_order [OF ex_parse]
  have m: "map bucket (armorDetails ex_result) = [''HELMET'', ''LEGS'']"
    by (simp add: ex_result_def)
  from t have "distinct (map bucket (armorDetails ex_result))"
    by (rule conjunct2 [THEN conjunct1])
  moreover from t have "subseq (map bucket (armorDetails ex_result))
     [''HELMET'', ''GAUNTLETS'', ''CHEST'', ''LEGS'', ''CLASS_ITEM'']"
    by (rule conjunct2 [THEN conjunct2, THEN conjunct1])
  ultimately show ?thesis
    using ex_parse ex_items m by blast
qed

subsection \<open>Shader detection\<close>

text \<open>
  Claim C2. For the item of every entry of the result that has socket state, the entry of
  \<open>shaderHashes\<close> is the outcome of the scan over the socket indices 3 to 5, and this
  scan yields the plug hash of the first of these sockets that is visible and has a
  non-zero plug hash, or 0 when there is none.
\<close>

theorem C2_shader_scan:
  "parseEquipmentForLoader p cid = Inr r \<Longrightarrow> i < length (shaderHashes r) \<Longrightarrow>
   bucket_item p cid (bucket (armorDetails r ! i)) = Some it \<Longrightarrow>
   sockets_of p it = Some sockets \<Longrightarrow>
     shaderHashes r ! i = scan_shader sockets 3 \<and>
     scan_shader sockets 3 = first_visible_plug sockets"
proof -
  assume r: "parseEquipmentForLoader p cid = Inr r" and i: "i < length (shaderHashes r)"
    and it: "bucket_item p cid (bucket (armorDetails r ! i)) = Some it"
    and s: "sockets_of p it = Some sockets"
  from i parse_Inr [OF r] have "i < length (armorDetails r)" by simp
  from parse_index [OF r this] it have "shaderHashes r ! i = shader_of p it" by auto
  with s show ?thesis by (simp add: shader_of_def scan_shader_spec)
qed

lemma ex_bucket_item: "bucket_item ex_profile ''c1'' ''HELMET'' = Some ex_helmet"
  by (simp add: bucket_item_def ARMOR_BUCKETS_def ex_items ex_legs_def ex_helmet_def)

text \<open>
  In the example the socket at index 3 has plug hash 0, the one at index 4 is not visible,
  and the one at index 5 gives the shader.
\<close>

theorem C2_shader_scan_witness:
  "parseEquipmentForLoader ex_profile ''c1'' = Inr ex_result \<and>
   (0::nat) < length (shaderHashes ex_result) \<and>
   bucket_item ex_profile ''c1'' (bucket (armorDetails ex_result ! 0)) = Some ex_helmet \<and>
   sockets_of ex_profile ex_helmet = Some ex_sockets \<and>
   shaderHashes ex_result ! 0 = first_visible_plug ex_sockets \<and>
   first_visible_plug ex_sockets = 99"
proof -
  have a: "(0::nat) < length (shaderHashes ex_result)"
    by (simp add: ex_result_def)
  have b: "bucket_item ex_profile ''c1'' (bucket (armorDetails ex_result ! 0)) = Some ex_helmet"
    using ex_bucket_item by (simp add: ex_result_def)
  from C2_shader_scan [OF ex_parse a b ex_sockets_helmet] ex_parse a b ex_sockets_helmet ex_scan
  show ?thesis by simp
qed

subsection \<open>Failure and empty results\<close>

text \<open>
  Claim C3, as the code has it. The function throws the \<open>TypeError\<close> of JavaScript, the
  only exception it has, when the character table is missing, and when the character id
  is neither a key of the table nor the name of a member that every object inherits. When
  the character and the equipment table are present it returns, with the properties of
  the character; and when no item of the character lies in an armor bucket (in particular
  when the character has no equipment entry at all) the sequences of the result are empty.
\<close>

theorem C3_absent_character_throws:
  "(characters p = None \<longrightarrow> parseEquipmentForLoader p cid = Inl TypeError) \<and>
   (\<forall>chars. characters p = Some chars \<and> chars cid = None \<and>
             cid \<notin> set Object_prototype_keys \<longrightarrow>
      parseEquipmentForLoader p cid = Inl TypeError) \<and>
   (\<forall>chars equip (c::character).
      characters p = Some chars \<and> chars cid = Some c \<and>
      characterEquipment p = Some equip \<longrightarrow>
      (\<exists>r. parseEquipmentForLoader p cid = Inr r \<and>
           res_character r =
             \<lparr>res_classType = Some (classType c), res_genderType = Some (genderType c),
              res_raceType = Some (raceType c), res_light = Some (light c),
              res_emblemPath = Some (emblemPath c)\<rparr> \<and>
           ((\<forall>it \<in> set (items_of p cid). bucketHash it \<notin> snd ` set ARMOR_BUCKETS) \<longrightarrow>
              armorDetails r = [] \<and> itemHashes r = [] \<and> shaderHashes r = [] \<and>
              itemDyes r = [])))"
proof (intro conjI allI impI)
  assume "characters p = None"
  then show "parseEquipmentForLoader p cid = Inl TypeError"
    by (simp add: parseEquipmentForLoader_def)
next
  fix chars
  assume "characters p = Some chars \<and> chars cid = None \<and> cid \<notin> set Object_prototype_keys"
  then show "parseEquipmentForLoader p cid = Inl TypeError"
    by (simp add: parseEquipmentForLoader_def js_get_def Let_def split: option.splits prod.splits)
next
  fix chars equip and c :: character
  let ?c = "\<lparr>res_classType = Some (classType c), res_genderType = Some (genderType c),
              res_raceType = Some (raceType c), res_light = Some (light c),
              res_emblemPath = Some (emblemPath c)\<rparr>"
  assume a: "characters p = Some chars \<and> chars cid = Some c \<and>
             characterEquipment p = Some equip"
  then have "read_character (js_get chars cid) = Inr ?c"
    by (simp add: js_get_def)
  with a obtain r where r: "parseEquipmentForLoader p cid = Inr r" "res_character r = ?c"
    using parse_returns [of p chars equip cid ?c] by blast
  have "armorDetails r = [] \<and> itemHashes r = [] \<and> shaderHashes r = [] \<and> itemDyes r = []"
    if "\<forall>it \<in> set (items_of p cid). bucketHash it \<notin> snd ` set ARMOR_BUCKETS"
    using parse_Inr [OF r(1)] picked_empty [OF that] by simp
  with r show "\<exists>r. parseEquipmentForLoader p cid = Inr r \<and> res_character r = ?c \<and>
           ((\<forall>it \<in> set (items_of p cid). bucketHash it \<notin> snd ` set ARMOR_BUCKETS) \<longrightarrow>
              armorDetails r = [] \<and> itemHashes r = [] \<and> shaderHashes r = [] \<and>
              itemDyes r = [])"
    by blast
qed

text \<open>
  A profile without the character table, an unknown character id, and a known character
  without an equipment entry.
\<close>

theorem C3_absent_character_throws_witness:
  "parseEquipmentForLoader (ex_bare\<lparr>characters := None\<rparr>) ''c1'' = Inl TypeError \<and>
   ''c9'' \<notin> set Object_prototype_keys \<and>
   parseEquipmentForLoader ex_profile ''c9'' = Inl TypeError \<and>
   items_of ex_bare ''c1'' = [] \<and>
   (\<exists>r. parseEquipmentForLoader ex_bare ''c1'' = Inr r \<and>
        res_light (res_character r) = Some 1810 \<and> armorDetails r = [] \<and>
        itemHashes r = [] \<and> shaderHashes r = [] \<and> itemDyes r = [])"
proof -
  let ?chars = "[''c1'' \<mapsto> ex_character]"
  have a: "characters (ex_bare\<lparr>characters := None\<rparr>) = None"
    by simp
  have b: "characters ex_profile = Some ?chars \<and> ?chars ''c9'' = None \<and>
           ''c9'' \<notin> set Object_prototype_keys"
    by (simp add: ex_profile_def Object_prototype_keys_def)
  have c: "characters ex_bare = Some ?chars \<and> ?chars ''c1'' = Some ex_character \<and>
           characterEquipment ex_bare = Some Map.empty"
    by (simp add: ex_bare_def)
  have d: "items_of ex_bare ''c1'' = []"
    by (simp add: items_of_def ex_bare_def)
  note t1 = C3_absent_character_throws [of "ex_bare\<lparr>characters := None\<rparr>" "''c1''"]
  note t2 = C3_absent_character_throws [of ex_profile "''c9''"]
  note t3 = C3_absent_character_throws [of ex_bare "''c1''"]
  from t1 a have 1: "parseEquipmentForLoader (ex_bare\<lparr>characters := None\<rparr>) ''c1'' = Inl TypeError"
    by blast
  from t2 b have 2: "parseEquipmentForLoader ex_profile ''c9'' = Inl TypeError"
    by blast
  from t3 have "\<forall>chars equip (c::character).
      characters ex_bare = Some chars \<and> chars ''c1'' = Some c \<and>
      characterEquipment ex_bare = Some equip \<longrightarrow>
      (\<exists>r. parseEquipmentForLoader ex_bare ''c1'' = Inr r \<and>
           res_character r =
             \<lparr>res_classType = Some (classType c), res_genderType = Some (genderType c),
              res_raceType = Some (raceType c), res_light = Some (light c),
              res_emblemPath = Some (emblemPath c)\<rparr> \<and>
           ((\<forall>it \<in> set (items_of ex_bare ''c1''). bucketHash it \<notin> snd ` set ARMOR_BUCKETS) \<longrightarrow>
              armorDetails r = [] \<and> itemHashes r = [] \<and> shaderHashes r = [] \<and>
              itemDyes r = []))"
    by (rule conjunct2 [THEN conjunct2])
  from this [rule_format, OF c] obtain r where r:
    "parseEquipmentForLoader ex_bare ''c1'' = Inr r"
    "res_character r =
       \<lparr>res_classType = Some (classType ex_character),
        res_genderType = Some (genderType ex_character),
        res_raceType = Some (raceType ex_character), res_light = Some (light ex_character),
        res_emblemPath = Some (emblemPath ex_character)\<rparr>"
    "(\<forall>it \<in> set (items_of ex_bare ''c1''). bucketHash it \<notin> snd ` set ARMOR_BUCKETS) \<longrightarrow>
       armorDetails r = [] \<and> itemHashes r = [] \<and> shaderHashes r = [] \<and> itemDyes r = []"
    by blast
  from r(3) d have "armorDetails r = [] \<and> itemHashes r = [] \<and> shaderHashes r = [] \<and>
      itemDyes r = []"
    by simp
  moreover from r(2) have "res_light (res_character r) = Some 1810"
    by (simp add: ex_character_def)
  ultimately have 3: "\<exists>r. parseEquipmentForLoader ex_bare ''c1'' = Inr r \<and>
        res_light (res_character r) = Some 1810 \<and> armorDetails r = [] \<and>
        itemHashes r = [] \<and> shaderHashes r = [] \<and> itemDyes r = []"
    using r(1) by blast
  from 1 2 3 b d show ?thesis by blast
qed

text \<open>
  The claim as it is written fails twice. The id \<open>toString\<close> is not a character of the
  snapshot, yet the function returns, with a character whose properties are all
  \<open>undefined\<close>. And with the character present but the equipment table missing, the
  function throws.
\<close>

theorem C3_absent_character_counterexample:
  "characters ex_bare = Some [''c1'' \<mapsto> ex_character] \<and>
   [''c1'' \<mapsto> ex_character] ''toString'' = None \<and>
   parseEquipmentForLoader ex_bare ''toString'' = Inr ex_empty_result \<and>
   characters ex_no_equipment_data = Some [''c1'' \<mapsto> ex_character] \<and>
   characterEquipment ex_no_equipment_data = None \<and>
   parseEquipmentForLoader ex_no_equipment_data ''c1'' = Inl TypeError"
proof -
  have c: "characters ex_bare = Some [''c1'' \<mapsto> ex_character]"
    by (simp add: ex_bare_def)
  have e: "characterEquipment ex_bare = Some Map.empty"
    by (simp add: ex_bare_def)
  have i: "items_of ex_bare ''toString'' = []"
    by (simp add: items_of_def ex_bare_def)
  have v: "peer_view_equipment ex_bare ''toString'' = []"
    by (simp add: peer_view_equipment_def ex_bare_def)
  have g: "js_get [''c1'' \<mapsto> ex_character] ''toString'' = Inherited"
    by (simp add: js_get_def Object_prototype_keys_def)
  have l: "armor_loop ex_bare [] [] ARMOR_BUCKETS ([], [], []) = ([], [], [])"
    by (simp add: ARMOR_BUCKETS_def)
  have 1: "parseEquipmentForLoader ex_bare ''toString'' = Inr ex_empty_result"
    by (simp add: parseEquipmentForLoader_def c e i v g l ex_empty_result_def)
  have 2: "parseEquipmentForLoader ex_no_equipment_data ''c1'' = Inl TypeError"
    by (simp add: parseEquipmentForLoader_def ex_no_equipment_data_def)
  have 3: "characters ex_no_equipment_data = Some [''c1'' \<mapsto> ex_character]"
    "characterEquipment ex_no_equipment_data = None"
    by (simp_all add: ex_no_equipment_data_def)
  have 4: "[''c1'' \<mapsto> ex_character] ''toString'' = None"
    by simp
  from c 1 2 3 4 show ?thesis by blast
qed

subsection \<open>Parallel sequences\<close>

text \<open>
  Claim C10. In every result the four sequences \<open>itemHashes\<close>, \<open>shaderHashes\<close>,
  \<open>armorDetails\<close> and \<open>itemDyes\<close> have the same length, and at each index they describe
  the same item: the one found for the bucket of \<open>armorDetails\<close> at that index, whose item
  hash, instance id, shader hash and peer-view dyes are the entries at that index.
\<close>

theorem C10_parallel_sequences:
  "parseEquipmentForLoader p cid = Inr r \<Longrightarrow>
     length (shaderHashes r) = length (itemHashes r) \<and>
     length (armorDetails r) = length (itemHashes r) \<and>
     length (itemDyes r) = length (itemHashes r) \<and>
     (i < length (itemHashes r) \<longrightarrow>
        (\<exists>it. bucket_item p cid (bucket (armorDetails r ! i)) = Some it \<and>
              itemHashes r ! i = itemHash it \<and>
              ad_itemHash (armorDetails r ! i) = itemHash it \<and>
              instanceId (armorDetails r ! i) = itemInstanceId it \<and>
              shaderHashes r ! i = shader_of p it \<and>
              itemDyes r ! i = dyes_for (peer_view_equipment p cid) (itemHash it)))"
proof -
  assume r: "parseEquipmentForLoader p cid = Inr r"
  note R = parse_Inr [OF r]
  have len: "length (shaderHashes r) = length (itemHashes r)"
    "length (armorDetails r) = length (itemHashes r)"
    "length (itemDyes r) = length (itemHashes r)"
    using R by simp_all
  have "\<exists>it. bucket_item p cid (bucket (armorDetails r ! i)) = Some it \<and>
              itemHashes r ! i = itemHash it \<and>
              ad_itemHash (armorDetails r ! i) = itemHash it \<and>
              instanceId (armorDetails r ! i) = itemInstanceId it \<and>
              shaderHashes r ! i = shader_of p it \<and>
              itemDyes r ! i = dyes_for (peer_view_equipment p cid) (itemHash it)"
    if "i < length (itemHashes r)"
    using parse_index [OF r, of i] that len by auto
  with len show ?thesis by blast
qed

text \<open>Index 1 of the example is the legs.\<close>

theorem C10_parallel_sequences_witness:
  "parseEquipmentForLoader ex_profile ''c1'' = Inr ex_result \<and>
   length (shaderHashes ex_result) = 2 \<and> length (armorDetails ex_result) = 2 \<and>
   length (itemDyes ex_result) = 2 \<and> length (itemHashes ex_result) = 2 \<and>
   (\<exists>it. bucket_item ex_profile ''c1'' ''LEGS'' = Some it \<and> itemHash it = 11 \<and>
         shader_of ex_profile it = 0 \<and>
         dyes_for (peer_view_equipment ex_profile ''c1'') (itemHash it) =
           [\<lparr>dyeHash = 5, channelHash = 6\<rparr>])"
proof -
  have "\<exists>it. bucket_item ex_profile ''c1'' ''LEGS'' = Some it \<and> itemHash it = 11 \<and>
         shader_of ex_profile it = 0 \<and>
         dyes_for (peer_view_equipment ex_profile ''c1'') (itemHash it) =
           [\<lparr>dyeHash = 5, channelHash = 6\<rparr>]"
    using C10_parallel_sequences [OF ex_parse, of 1]
    by (simp add: ex_result_def) metis
  with ex_parse show ?thesis
    by (simp add: ex_result_def)
qed

section \<open>Properties of \<open>loadShaderDyes\<close>\<close>

lemma loadShaderDyes_asset:
  "shaderHash \<noteq> 0 \<Longrightarrow> tgx_available env \<Longrightarrow>
   getAsset env shaderHash = Loaded (Some d) \<Longrightarrow> gearAsset d = Some ga \<Longrightarrow>
     loadShaderDyes env shaderHash =
       (if non_empty (custom_dyes ga) then custom_dyes ga
        else if non_empty (default_dyes ga) then default_dyes ga else None)"
  by (simp add: loadShaderDyes_def)

lemma non_empty_Some: "non_empty (Some xs) \<longleftrightarrow> xs \<noteq> []"
  by (simp add: non_empty_def)

subsection \<open>Custom dyes before default dyes\<close>

text \<open>
  Claim C4, as the code has it. For a shader hash other than 0 whose asset is found: when
  \<open>custom_dyes\<close> is a non-empty sequence, \<open>loadShaderDyes\<close> resolves to that sequence,
  whole and in order (so its first entry comes first), whatever \<open>default_dyes\<close> and
  \<open>locked_dyes\<close> hold; \<open>default_dyes\<close> decides the result only when \<open>custom_dyes\<close> is
  missing or empty. The value carries no mark of where it came from.
\<close>

theorem C4_custom_dyes_priority:
  "shaderHash \<noteq> 0 \<Longrightarrow> tgx_available env \<Longrightarrow>
   getAsset env shaderHash = Loaded (Some d) \<Longrightarrow> gearAsset d = Some ga \<Longrightarrow>
     (\<forall>cd. custom_dyes ga = Some cd \<and> cd \<noteq> [] \<longrightarrow>
        loadShaderDyes env shaderHash = Some cd \<and>
        map_option hd (loadShaderDyes env shaderHash) = Some (hd cd)) \<and>
     (\<not> non_empty (custom_dyes ga) \<longrightarrow>
        loadShaderDyes env shaderHash =
          (if non_empty (default_dyes ga) then default_dyes ga else None))"
  by (simp add: loadShaderDyes_asset non_empty_Some)

theorem C4_custom_dyes_priority_witness:
  "(7::nat) \<noteq> 0 \<and> tgx_available ex_env_custom \<and>
   loadShaderDyes ex_env_custom 7 = Some [1, 2] \<and>
   loadShaderDyes ex_env_default 7 = Some [1, 2]"
proof -
  let ?ga = "\<lparr>custom_dyes = Some [1, 2::nat], default_dyes = Some [3], locked_dyes = Some [4]\<rparr>"
  let ?gb = "\<lparr>custom_dyes = Some [], default_dyes = Some [1, 2::nat], locked_dyes = None\<rparr>"
  have n: "(7::nat) \<noteq> 0" by simp
  have a: "tgx_available ex_env_custom"
    "getAsset ex_env_custom 7 = Loaded (Some \<lparr>gearAsset = Some ?ga\<rparr>)"
    by (simp_all add: ex_env_custom_def)
  have b: "tgx_available ex_env_default"
    "getAsset ex_env_default 7 = Loaded (Some \<lparr>gearAsset = Some ?gb\<rparr>)"
    by (simp_all add: ex_env_default_def)
  have g: "gearAsset \<lparr>gearAsset = Some ?ga\<rparr> = Some ?ga" "gearAsset \<lparr>gearAsset = Some ?gb\<rparr> = Some ?gb"
    by simp_all
  from C4_custom_dyes_priority [OF n a g(1)] C4_custom_dyes_priority [OF n b g(2)] a(1)
  show ?thesis by (simp add: non_empty_def)
qed

text \<open>
  The claim as it is written fails: with two custom dyes the result is both of them, not the
  first entry alone, and the same value is returned when it comes from \<open>default_dyes\<close>, so
  no origin can be read from it.
\<close>

theorem C4_first_entry_counterexample:
  "loadShaderDyes ex_env_custom 7 = Some [1, 2] \<and>
   loadShaderDyes ex_env_custom 7 \<noteq> Some [hd [1, 2]] \<and>
   loadShaderDyes ex_env_default 7 = loadShaderDyes ex_env_custom 7"
  by (simp add: loadShaderDyes_def ex_env_custom_def ex_env_default_def non_empty_def)

subsection \<open>Failures of the manifest\<close>

text \<open>
  Claim C9, as the code has it. When the manifest reports an error or throws,
  \<open>loadShaderDyes\<close> resolves to \<open>null\<close>: the same value it resolves to when the manifest
  answers without data. Nothing is rejected or thrown to the caller.
\<close>

theorem C9_failure_resolves_null:
  "getAsset env shaderHash = Failed \<or> getAsset env shaderHash = Thrown \<Longrightarrow>
     loadShaderDyes env shaderHash = None \<and>
     loadShaderDyes env shaderHash =
       loadShaderDyes (env\<lparr>getAsset := (\<lambda>h. Loaded None)\<rparr>) shaderHash"
  by (auto simp: loadShaderDyes_def)

theorem C9_failure_resolves_null_witness:
  "getAsset ex_env_failed 7 = Failed \<and> loadShaderDyes ex_env_failed 7 = None"
proof -
  have a: "getAsset ex_env_failed 7 = Failed"
    by (simp add: ex_env_failed_def)
  then have "getAsset ex_env_failed 7 = Failed \<or> getAsset ex_env_failed 7 = Thrown" ..
  from C9_failure_resolves_null [OF this] a show ?thesis by simp
qed

text \<open>
  The claim as it is written fails: an unreachable manifest and an asset that is not found
  give the same value.
\<close>

theorem C9_collapsed_counterexample:
  "getAsset ex_env_failed 7 = Failed \<and> getAsset ex_env_missing 7 = Loaded None \<and>
   loadShaderDyes ex_env_failed 7 = loadShaderDyes ex_env_missing 7"
  by (simp add: loadShaderDyes_def ex_env_failed_def ex_env_missing_def)

section \<open>Properties of the bone hierarchy\<close>

lemma attach_bones_set:
  "(q, j) \<in> set (attach_bones n i bs) \<longleftrightarrow>
     i \<le> j \<and> j < i + length bs \<and> parent (bs ! (j - i)) = Some (int q) \<and> q < n"
proof (induction bs arbitrary: i)
  case Nil
  show ?case by simp
next
  case (Cons b bs)
  have shift: "(b # bs) ! (j - i) = bs ! (j - (i + 1))" if "i < j"
    using that by (simp add: nth_Cons')
  show ?case
  proof (cases "j = i")
    case True
    then show ?thesis
      using Cons.IH [of "i + 1"] by (auto split: option.splits)
  next
    case False
    then show ?thesis
      using Cons.IH [of "i + 1"] shift by (auto split: option.splits)
  qed
qed

lemma root_scan_last:
  "((\<forall>b \<in> set bs. \<not> root_like b) \<and> root_scan r i bs = r) \<or>
   (\<exists>k < length bs. root_scan r i bs = i + k \<and> root_like (bs ! k) \<and>
        (\<forall>j. k < j \<and> j < length bs \<longrightarrow> \<not> root_like (bs ! j)))"
proof (induction bs arbitrary: r i)
  case Nil
  show ?case by simp
next
  case (Cons b bs)
  let ?r = "if root_like b then i else r"
  from Cons.IH [of ?r "i + 1"]
  consider (none) "\<forall>b \<in> set bs. \<not> root_like b" "root_scan ?r (i + 1) bs = ?r"
    | (some) k where "k < length bs" "root_scan ?r (i + 1) bs = i + 1 + k" "root_like (bs ! k)"
        "\<forall>j. k < j \<and> j < length bs \<longrightarrow> \<not> root_like (bs ! j)"
    by blast
  then show ?case
  proof cases
    case none
    show ?thesis
    proof (cases "root_like b")
      case True
      have "\<forall>j. 0 < j \<and> j < length (b # bs) \<longrightarrow> \<not> root_like ((b # bs) ! j)"
        using none(1) by (auto simp: nth_Cons')
      with True none(2) have "0 < length (b # bs) \<and> root_scan r i (b # bs) = i + 0 \<and>
          root_like ((b # bs) ! 0) \<and>
          (\<forall>j. 0 < j \<and> j < length (b # bs) \<longrightarrow> \<not> root_like ((b # bs) ! j))"
        by simp
      then show ?thesis by blast
    next
      case False
      with none show ?thesis by simp
    qed
  next
    case some
    have "\<forall>j. Suc k < j \<and> j < length (b # bs) \<longrightarrow> \<not> root_like ((b # bs) ! j)"
    proof (intro allI impI)
      fix j assume j: "Suc k < j \<and> j < length (b # bs)"
      then have "k < j - 1 \<and> j - 1 < length bs" by auto
      with some(4) have "\<not> root_like (bs ! (j - 1))" by blast
      with j show "\<not> root_like ((b # bs) ! j)" by (simp add: nth_Cons')
    qed
    with some have "Suc k < length (b # bs) \<and> root_scan r i (b # bs) = i + Suc k \<and>
        root_like ((b # bs) ! Suc k) \<and>
        (\<forall>j. Suc k < j \<and> j < length (b # bs) \<longrightarrow> \<not> root_like ((b # bs) ! j))"
      by simp
    then show ?thesis by blast
  qed
qed

lemma make_mesh_bones:
  "bones g = Some bs \<Longrightarrow> bs \<noteq> [] \<Longrightarrow>
     make_mesh h g =
       SkinnedMesh h \<lparr>attachments = attach_bones (length bs) 0 bs,
                      rootBone = root_scan 0 0 bs, skinned = has_skin g\<rparr>"
  by (simp add: make_mesh_def non_empty_def)

subsection \<open>Parent indices are not validated\<close>

text \<open>
  Claim C5, as the code has it. When the loader delivers a geometry with a non-empty bone
  sequence, \<open>loadModel\<close> resolves with a skinned mesh whatever the parent indices are. Bone
  \<open>j\<close> is attached to bone \<open>q\<close> exactly when its parent index is \<open>q\<close> and \<open>q\<close> lies in the
  range of the sequence, a forward or self reference included; a parent index outside the
  range leaves the bone unattached. No error is raised for either.
\<close>

theorem C5_no_parent_validation:
  "loader h opts = OnLoad (Some g) \<Longrightarrow> bones g = Some bs \<Longrightarrow> bs \<noteq> [] \<Longrightarrow>
     (\<exists>sk. loadModel loader h opts = Resolved (SkinnedMesh h sk) \<and>
           (\<forall>q j. (q, j) \<in> set (attachments sk) \<longleftrightarrow>
                    j < length bs \<and> parent (bs ! j) = Some (int q) \<and> q < length bs))"
  by (simp add: loadModel_def make_mesh_bones attach_bones_set)

text \<open>Bone 0 names bone 1, a later bone, as its parent, and is attached to it.\<close>

theorem C5_no_parent_validation_witness:
  "ex_loader_later_parent 7 ex_options =
     OnLoad (Some \<lparr>bones = Some ex_bones_later_parent, has_skin = False\<rparr>) \<and>
   ex_bones_later_parent \<noteq> [] \<and>
   (\<exists>sk. loadModel ex_loader_later_parent 7 ex_options = Resolved (SkinnedMesh 7 sk) \<and>
         (1, 0) \<in> set (attachments sk))"
proof -
  have a: "ex_loader_later_parent 7 ex_options =
             OnLoad (Some \<lparr>bones = Some ex_bones_later_parent, has_skin = False\<rparr>)"
    by (simp add: ex_loader_later_parent_def)
  have b: "bones \<lparr>bones = Some ex_bones_later_parent, has_skin = False\<rparr> =
             Some ex_bones_later_parent"
    by simp
  have c: "ex_bones_later_parent \<noteq> []"
    by (simp add: ex_bones_later_parent_def)
  have d: "(0::nat) < length ex_bones_later_parent \<and>
           parent (ex_bones_later_parent ! 0) = Some (int 1) \<and>
           (1::nat) < length ex_bones_later_parent"
    by (simp add: ex_bones_later_parent_def)
  from C5_no_parent_validation [of ex_loader_later_parent 7 ex_options, OF a b c] d
  have "\<exists>sk. loadModel ex_loader_later_parent 7 ex_options = Resolved (SkinnedMesh 7 sk) \<and>
         (1, 0) \<in> set (attachments sk)"
    by blast
  with a c show ?thesis by blast
qed

text \<open>
  The claim as it is written fails on its own example: the sequence with parents \<open>-1\<close> and
  \<open>5\<close> is assembled, the second bone unattached.
\<close>

theorem C5_forward_reference_counterexample:
  "ex_bones_forward = [\<lparr>parent = Some (- 1)\<rparr>, \<lparr>parent = Some 5\<rparr>] \<and>
   loadModel ex_loader_forward 7 ex_options =
     Resolved (SkinnedMesh 7 \<lparr>attachments = [], rootBone = 0, skinned = False\<rparr>)"
  by (simp add: loadModel_def ex_loader_forward_def make_mesh_def non_empty_def
        ex_bones_forward_def root_like_def)

subsection \<open>The root bone\<close>

text \<open>
  Claim C6, as the code has it. When a bone sequence holds at least one descriptor whose
  parent index is negative or missing, the bone bound as root is the last such descriptor
  in sequence order: the search overwrites its choice at every such bone and does not stop.
\<close>

theorem C6_last_root_wins:
  "\<exists>b \<in> set bs. root_like b \<Longrightarrow>
     root_scan 0 0 bs < length bs \<and> root_like (bs ! root_scan 0 0 bs) \<and>
     (\<forall>j. root_scan 0 0 bs < j \<and> j < length bs \<longrightarrow> \<not> root_like (bs ! j))"
  using root_scan_last [of bs 0 0] by auto

theorem C6_last_root_wins_witness:
  "(\<exists>b \<in> set ex_bones_two_roots. root_like b) \<and> root_scan 0 0 ex_bones_two_roots = 2 \<and>
   root_scan 0 0 ex_bones_two_roots < length ex_bones_two_roots \<and>
   root_like (ex_bones_two_roots ! root_scan 0 0 ex_bones_two_roots)"
proof -
  have a: "\<exists>b \<in> set ex_bones_two_roots. root_like b"
    by (simp add: ex_bones_two_roots_def root_like_def)
  have b: "root_scan 0 0 ex_bones_two_roots = 2"
    by (simp add: ex_bones_two_roots_def root_like_def)
  from C6_last_root_wins [OF a] a b show ?thesis by simp
qed

text \<open>
  The claim as it is written fails: with two descriptors of parent \<open>-1\<close>, at the indices 0
  and 2, the root is bone 2 and not bone 0.
\<close>

theorem C6_first_root_counterexample:
  "root_like (ex_bones_two_roots ! 0) \<and> root_like (ex_bones_two_roots ! 2) \<and>
   make_mesh 7 \<lparr>bones = Some ex_bones_two_roots, has_skin = False\<rparr> =
     SkinnedMesh 7 \<lparr>attachments = [(0, 1)], rootBone = 2, skinned = False\<rparr> \<and>
   root_scan 0 0 ex_bones_two_roots \<noteq> 0"
  by (simp add: make_mesh_def non_empty_def ex_bones_two_roots_def root_like_def)

section \<open>Properties of the placement\<close>

lemma tan_half_fov_pos: "0 < tan (camera_fov * (pi / 180) / 2)"
proof (rule tan_gt_zero)
  show "0 < camera_fov * (pi / 180) / 2"
    by (simp add: camera_fov_def)
  show "camera_fov * (pi / 180) / 2 < pi / 2"
    by (simp add: camera_fov_def)
qed

lemma tan_half_fov_nonzero: "tan (camera_fov * (pi / 180) / 2) \<noteq> 0"
  using tan_half_fov_pos by simp

subsection \<open>Degenerate bounding boxes\<close>

text \<open>
  Claim C7. When the greatest extent of the bounding box is not finite or is at most 0,
  whatever the box is otherwise, the extent used is 2 and the centre used is \<open>(0, 1, 0)\<close>;
  the scale factor is exactly 1, the group is scaled by \<open>(1, 1, 1)\<close> and moved to
  \<open>(0, -1, 0)\<close>, and the camera distance and the camera position are finite numbers.
\<close>

theorem C7_degenerate_box_defaults:
  "degenerate_box (js_max3 sx sy sz) \<Longrightarrow>
     pl_maxDim (place_group (sx, sy, sz) c) = Num 2 \<and>
     pl_center (place_group (sx, sy, sz) c) = (Num 0, Num 1, Num 0) \<and>
     pl_scaleFactor (place_group (sx, sy, sz) c) = Num 1 \<and>
     group_scale (place_group (sx, sy, sz) c) = (Num 1, Num 1, Num 1) \<and>
     group_position (place_group (sx, sy, sz) c) = (Num 0, Num (- 1), Num 0) \<and>
     js_isFinite (pl_cameraDistance (place_group (sx, sy, sz) c)) \<and>
     js_isFinite (camera_z (place_group (sx, sy, sz) c))"
proof -
  assume d: "degenerate_box (js_max3 sx sy sz)"
  have sf: "\<not> (js_lt (Num 2) (Num (1 / 2)) \<and> js_gt (Num 2) (Num 0))"
    by simp
  show ?thesis
    unfolding place_group_def Let_def
    using d sf tan_half_fov_nonzero by simp
qed

text \<open>A box of extent 0 around the point \<open>(5, 5, 5)\<close>, and a box with a non-finite extent.\<close>

theorem C7_degenerate_box_defaults_witness:
  "degenerate_box (js_max3 (Num 0) (Num 0) (Num 0)) \<and>
   degenerate_box (js_max3 PosInf (Num 1) NaN) \<and>
   pl_scaleFactor (place_group (Num 0, Num 0, Num 0) (Num 5, Num 5, Num 5)) = Num 1 \<and>
   group_position (place_group (Num 0, Num 0, Num 0) (Num 5, Num 5, Num 5)) =
     (Num 0, Num (- 1), Num 0) \<and>
   js_isFinite (camera_z (place_group (Num 0, Num 0, Num 0) (Num 5, Num 5, Num 5))) \<and>
   group_position (place_group (PosInf, Num 1, NaN) (NaN, NaN, NaN)) =
     (Num 0, Num (- 1), Num 0) \<and>
   js_isFinite (camera_z (place_group (PosInf, Num 1, NaN) (NaN, NaN, NaN)))"
proof -
  have a: "degenerate_box (js_max3 (Num 0) (Num 0) (Num 0))"
    by (simp add: degenerate_box_def js_max3_def)
  have b: "degenerate_box (js_max3 PosInf (Num 1) NaN)"
    by (simp add: degenerate_box_def js_max3_def)
  from C7_degenerate_box_defaults [OF a, of "(Num 5, Num 5, Num 5)"]
       C7_degenerate_box_defaults [OF b, of "(NaN, NaN, NaN)"] a b
  show ?thesis by simp
qed

section \<open>Properties of the character load\<close>

lemma loaded_meshes_Cons:
  "loaded_meshes env loader eq (i # idxs) =
     (case load_item env loader eq i of
        Resolved m \<Rightarrow> m # loaded_meshes env loader eq idxs
      | Rejected err \<Rightarrow> loaded_meshes env loader eq idxs
      | Pending \<Rightarrow> loaded_meshes env loader eq idxs)"
  by (simp add: loaded_meshes_def map_filter_simps split: promise.splits)

lemma loaded_meshes_Nil: "loaded_meshes env loader eq [] = []"
  by (simp add: loaded_meshes_def map_filter_simps)

lemma loaded_meshes_set:
  "m \<in> set (loaded_meshes env loader eq idxs) \<longleftrightarrow>
     (\<exists>i \<in> set idxs. load_item env loader eq i = Resolved m)"
  by (induction idxs) (auto simp: loaded_meshes_Nil loaded_meshes_Cons split: promise.splits)

text \<open>When every load settles, the loop ends and keeps exactly the meshes that loaded.\<close>

lemma load_items_settled:
  "\<forall>j. i \<le> j \<and> j < length (itemHashes eq) \<longrightarrow> load_item env loader eq j \<noteq> Pending \<Longrightarrow>
   load_items env loader eq i (children, loadedCount) =
     Some (children @ loaded_meshes env loader eq [i..<length (itemHashes eq)],
           loadedCount + length (loaded_meshes env loader eq [i..<length (itemHashes eq)]))"
proof (induction env loader eq i "(children, loadedCount)" arbitrary: children loadedCount
       rule: load_items.induct)
  case (1 env loader eq i children loadedCount)
  show ?case
  proof (cases "i < length (itemHashes eq)")
    case False
    then show ?thesis
      by (subst load_items.simps) (simp add: loaded_meshes_Nil)
  next
    case True
    then have upt: "[i..<length (itemHashes eq)] = i # [i + 1..<length (itemHashes eq)]"
      by (simp add: upt_conv_Cons)
    have later: "\<forall>j. i + 1 \<le> j \<and> j < length (itemHashes eq) \<longrightarrow>
                   load_item env loader eq j \<noteq> Pending"
      using "1.prems" by simp
    show ?thesis
    proof (cases "load_item env loader eq i")
      case (Resolved m)
      with True "1.hyps"(1) [OF True Resolved later] show ?thesis
        by (subst load_items.simps) (simp add: upt loaded_meshes_Cons)
    next
      case (Rejected err)
      with True "1.hyps"(2) [OF True Rejected later] show ?thesis
        by (subst load_items.simps) (simp add: upt loaded_meshes_Cons)
    next
      case Pending
      with True "1.prems" show ?thesis by auto
    qed
  qed
qed

text \<open>When one load never settles, the loop never ends, wherever it starts before it.\<close>

lemma load_items_stalls:
  "i \<le> k \<Longrightarrow> k < length (itemHashes eq) \<Longrightarrow> load_item env loader eq k = Pending \<Longrightarrow>
   load_items env loader eq i (children, loadedCount) = None"
proof (induction env loader eq i "(children, loadedCount)" arbitrary: children loadedCount
       rule: load_items.induct)
  case (1 env loader eq i children loadedCount)
  from "1.prems" have lt: "i < length (itemHashes eq)" by simp
  show ?case
  proof (cases "load_item env loader eq i")
    case Pending
    with lt show ?thesis
      by (subst load_items.simps) simp
  next
    case (Resolved m)
    with "1.prems" have "i + 1 \<le> k" by (cases "i = k") auto
    from "1.hyps"(1) [OF lt Resolved this "1.prems"(2,3)] Resolved lt show ?thesis
      by (subst load_items.simps) simp
  next
    case (Rejected err)
    with "1.prems" have "i + 1 \<le> k" by (cases "i = k") auto
    from "1.hyps"(2) [OF lt Rejected this "1.prems"(2,3)] Rejected lt show ?thesis
      by (subst load_items.simps) simp
  qed
qed

subsection \<open>Loads that are rejected\<close>

text \<open>
  When every load is resolved or rejected, the loop keeps, in order, the mesh of every item
  that loads and only skips the rejected ones. If at least one item loads, the group of the
  loaded meshes is put on the scene and the status line is cleared. If none loads, nothing
  is put on the scene and the status line holds one of two messages that a successful load
  never leaves.
\<close>

lemma rejected_items_are_skipped:
  assumes settled: "\<forall>j < length (itemHashes eq). load_item env loader eq j \<noteq> Pending"
  shows "load_items env loader eq 0 ([], 0) =
           Some (loaded_meshes env loader eq [0..<length (itemHashes eq)],
                 length (loaded_meshes env loader eq [0..<length (itemHashes eq)]))"
    and "(\<exists>i < length (itemHashes eq). \<exists>m. load_item env loader eq i = Resolved m) \<Longrightarrow>
         load_character env loader eq =
           Some \<lparr>status = Cleared,
                 scene_group = Some (loaded_meshes env loader eq [0..<length (itemHashes eq)])\<rparr>"
    and "(\<forall>i < length (itemHashes eq). \<exists>err. load_item env loader eq i = Rejected err) \<Longrightarrow>
         load_character env loader eq =
           Some \<lparr>status = (if itemHashes eq = [] then No_armor_found else No_piece_loaded),
                 scene_group = None\<rparr>"
proof -
  let ?n = "length (itemHashes eq)"
  let ?ms = "loaded_meshes env loader eq [0..<?n]"
  show li: "load_items env loader eq 0 ([], 0) = Some (?ms, length ?ms)"
    using load_items_settled [of 0 eq env loader "[]" 0] settled by simp
  show "load_character env loader eq = Some \<lparr>status = Cleared, scene_group = Some ?ms\<rparr>"
    if "\<exists>i < ?n. \<exists>m. load_item env loader eq i = Resolved m"
  proof -
    from that obtain i m where "i < ?n" "load_item env loader eq i = Resolved m" by blast
    then have "m \<in> set ?ms" by (auto simp: loaded_meshes_set)
    then have "?ms \<noteq> []" by auto
    moreover from that have "0 < ?n" by auto
    ultimately show ?thesis by (simp add: load_character_def li)
  qed
  show "load_character env loader eq =
          Some \<lparr>status = (if itemHashes eq = [] then No_armor_found else No_piece_loaded),
                scene_group = None\<rparr>"
    if "\<forall>i < ?n. \<exists>err. load_item env loader eq i = Rejected err"
  proof -
    have "m \<notin> set ?ms" for m
    proof
      assume "m \<in> set ?ms"
      then obtain i where "i < ?n" "load_item env loader eq i = Resolved m"
        by (auto simp: loaded_meshes_set)
      with that show False by force
    qed
    then have "?ms = []" by (cases ?ms) auto
    then show ?thesis by (simp add: load_character_def li)
  qed
qed

text \<open>
  Of the two items of the example the helmet (22) is rejected and the legs (11) load; with
  a loader that fails on everything, nothing loads.
\<close>

lemma ex_rejected_item_is_skipped:
  "load_item ex_env_custom ex_loader ex_result 0 = Rejected ''404'' \<and>
   load_item ex_env_custom ex_loader ex_result 1 = Resolved (Mesh 11) \<and>
   load_character ex_env_custom ex_loader ex_result =
     Some \<lparr>status = Cleared, scene_group = Some [Mesh 11]\<rparr> \<and>
   load_character ex_env_custom ex_loader_down ex_result =
     Some \<lparr>status = No_piece_loaded, scene_group = None\<rparr>"
proof -
  have a: "load_item ex_env_custom ex_loader ex_result 0 = Rejected ''404''"
    by (simp add: load_item_def loadModel_def ex_loader_def ex_result_def at_index_def)
  have b: "load_item ex_env_custom ex_loader ex_result 1 = Resolved (Mesh 11)"
    by (simp add: load_item_def loadModel_def ex_loader_def ex_result_def at_index_def
          make_mesh_def ex_plain_geometry_def non_empty_def)
  have n: "length (itemHashes ex_result) = 2" "itemHashes ex_result \<noteq> []"
    by (simp_all add: ex_result_def)
  have upt: "[0..<2] = [0, 1::nat]"
    by (simp add: upt_conv_Cons)
  have s1: "\<forall>j < length (itemHashes ex_result).
              load_item ex_env_custom ex_loader ex_result j \<noteq> Pending"
    by (simp add: load_item_def loadModel_def ex_loader_def Let_def)
  have s2: "\<forall>j < length (itemHashes ex_result).
              load_item ex_env_custom ex_loader_down ex_result j \<noteq> Pending"
    by (simp add: load_item_def loadModel_def ex_loader_down_def)
  have c: "\<exists>i < length (itemHashes ex_result).
             \<exists>m. load_item ex_env_custom ex_loader ex_result i = Resolved m"
    using b n by (intro exI [of _ 1]) simp
  have d: "\<forall>i < length (itemHashes ex_result).
             \<exists>err. load_item ex_env_custom ex_loader_down ex_result i = Rejected err"
    by (simp add: load_item_def loadModel_def ex_loader_down_def)
  have ms: "loaded_meshes ex_env_custom ex_loader ex_result [0..<length (itemHashes ex_result)] =
              [Mesh 11]"
    using a b by (simp add: n upt loaded_meshes_Cons loaded_meshes_Nil)
  from rejected_items_are_skipped(2) [OF s1 c] ms
  have e: "load_character ex_env_custom ex_loader ex_result =
             Some \<lparr>status = Cleared, scene_group = Some [Mesh 11]\<rparr>"
    by simp
  from rejected_items_are_skipped(3) [OF s2 d] n
  have f: "load_character ex_env_custom ex_loader_down ex_result =
             Some \<lparr>status = No_piece_loaded, scene_group = None\<rparr>"
    by simp
  from a b e f show ?thesis by simp
qed

subsection \<open>A load that throws inside the load callback\<close>

text \<open>
  Claim C8 does not hold of the code for a load that fails inside the load callback. At the
  input below the loader calls the load callback for the first item (22) without a
  geometry. The callback throws, the promise of \<open>loadModel\<close> is never settled, and the
  \<open>await\<close> in the loop never returns: the failure is not caught at the item, the second
  item (11), which would load, is never asked for, nothing is put on the scene and no
  final status is written. The comment in the \<open>catch\<close> of the loop, "Continue with other
  items even if one fails", says what the claim says.
\<close>

theorem C8_missing_geometry_stalls_load:
  "ex_loader_no_geometry 22 ex_options = OnLoad None \<and>
   itemHashes ex_result = [22, 11] \<and>
   load_item ex_env_custom ex_loader_no_geometry ex_result 0 = Pending \<and>
   load_item ex_env_custom ex_loader_no_geometry ex_result 1 = Resolved (Mesh 11) \<and>
   load_items ex_env_custom ex_loader_no_geometry ex_result 0 ([], 0) = None \<and>
   load_character ex_env_custom ex_loader_no_geometry ex_result = None"
proof -
  have a: "load_item ex_env_custom ex_loader_no_geometry ex_result 0 = Pending"
    by (simp add: load_item_def loadModel_def ex_loader_no_geometry_def ex_result_def
          at_index_def)
  have b: "load_item ex_env_custom ex_loader_no_geometry ex_result 1 = Resolved (Mesh 11)"
    by (simp add: load_item_def loadModel_def ex_loader_no_geometry_def ex_result_def
          at_index_def make_mesh_def ex_plain_geometry_def non_empty_def)
  have n: "itemHashes ex_result = [22, 11]"
    by (simp add: ex_result_def)
  have c: "load_items ex_env_custom ex_loader_no_geometry ex_result 0 ([], 0) = None"
    using load_items_stalls [of 0 0 ex_result ex_env_custom ex_loader_no_geometry "[]" 0] a n
    by simp
  then have d: "load_character ex_env_custom ex_loader_no_geometry ex_result = None"
    using n by (simp add: load_character_def)
  from a b c d n show ?thesis
    by (simp add: ex_loader_no_geometry_def)
qed

end
